theory Spec2Isabelle
  imports
    Complex_Main
    "HOL-Library.Multiset"
    "HOL-Library.List_Lexorder"
    "HOL-Library.Char_ord"
    "HOL-Library.Word"
begin

section \<open>Numbers and columns as the two scripts use them\<close>

text \<open>
  Both scripts (\<^verbatim>\<open>police_use_of_force_analysis.py\<close> and
  \<^verbatim>\<open>us_wage_analysis/wage_ml_analysis.py\<close>) work on pandas columns of 64-bit floats.
  A float cell is a finite number, one of the two infinities, or the missing value NaN.
  Finite arithmetic is carried out on the reals: the rounding of binary floating point and
  the sign of zero are not part of this model, the special values are.
\<close>

datatype fnum = Fin real | PInf | NInf | NaN

fun f_add :: "fnum \<Rightarrow> fnum \<Rightarrow> fnum" where
  "f_add NaN _ = NaN"
| "f_add _ NaN = NaN"
| "f_add (Fin a) (Fin b) = Fin (a + b)"
| "f_add PInf NInf = NaN"
| "f_add NInf PInf = NaN"
| "f_add PInf _ = PInf"
| "f_add _ PInf = PInf"
| "f_add NInf _ = NInf"
| "f_add _ NInf = NInf"

fun f_mul :: "fnum \<Rightarrow> fnum \<Rightarrow> fnum" where
  "f_mul NaN _ = NaN"
| "f_mul _ NaN = NaN"
| "f_mul (Fin a) (Fin b) = Fin (a * b)"
| "f_mul (Fin a) PInf = (if a = 0 then NaN else if 0 < a then PInf else NInf)"
| "f_mul (Fin a) NInf = (if a = 0 then NaN else if 0 < a then NInf else PInf)"
| "f_mul PInf (Fin b) = (if b = 0 then NaN else if 0 < b then PInf else NInf)"
| "f_mul NInf (Fin b) = (if b = 0 then NaN else if 0 < b then NInf else PInf)"
| "f_mul PInf PInf = PInf"
| "f_mul NInf NInf = PInf"
| "f_mul PInf NInf = NInf"
| "f_mul NInf PInf = NInf"

text \<open>
  Division of float columns never raises: a finite non-zero number over zero is an
  infinity, and zero over zero is NaN.
\<close>

fun f_div :: "fnum \<Rightarrow> fnum \<Rightarrow> fnum" where
  "f_div NaN _ = NaN"
| "f_div _ NaN = NaN"
| "f_div (Fin a) (Fin b) =
     (if b \<noteq> 0 then Fin (a / b)
      else if a = 0 then NaN
      else if 0 < a then PInf else NInf)"
| "f_div (Fin a) PInf = Fin 0"
| "f_div (Fin a) NInf = Fin 0"
| "f_div PInf (Fin b) = (if 0 \<le> b then PInf else NInf)"
| "f_div NInf (Fin b) = (if 0 \<le> b then NInf else PInf)"
| "f_div PInf PInf = NaN"
| "f_div PInf NInf = NaN"
| "f_div NInf PInf = NaN"
| "f_div NInf NInf = NaN"

text \<open>Comparisons of a cell with a number: every comparison with NaN is false.\<close>

fun f_eq :: "fnum \<Rightarrow> real \<Rightarrow> bool" where
  "f_eq (Fin a) v = (a = v)"
| "f_eq _ v = False"

fun f_ge :: "fnum \<Rightarrow> real \<Rightarrow> bool" where
  "f_ge (Fin a) v = (v \<le> a)"
| "f_ge PInf v = True"
| "f_ge _ v = False"

fun f_gt :: "fnum \<Rightarrow> real \<Rightarrow> bool" where
  "f_gt (Fin a) v = (v < a)"
| "f_gt PInf v = True"
| "f_gt _ v = False"

text \<open>\<^verbatim>\<open>np.log\<close>: minus infinity at zero, NaN below zero.\<close>

fun np_log :: "fnum \<Rightarrow> fnum" where
  "np_log (Fin a) = (if 0 < a then Fin (ln a) else if a = 0 then NInf else NaN)"
| "np_log PInf = PInf"
| "np_log _ = NaN"

text \<open>\<^verbatim>\<open>.astype(int)\<close> on a boolean column.\<close>

definition astype_int :: "bool \<Rightarrow> int" where
  "astype_int b = (if b then 1 else 0)"

text \<open>
  \<^verbatim>\<open>Series.sum()\<close> skips NaN cells (\<open>skipna\<close> is on by default) and starts from zero,
  \<^verbatim>\<open>Series.mean()\<close> divides that sum by the number of cells that are not NaN.
\<close>

definition series_sum :: "fnum list \<Rightarrow> fnum" where
  "series_sum xs = foldl f_add (Fin 0) (filter (\<lambda>x. x \<noteq> NaN) xs)"

definition series_mean :: "fnum list \<Rightarrow> fnum" where
  "series_mean xs =
     f_div (series_sum xs) (Fin (real (length (filter (\<lambda>x. x \<noteq> NaN) xs))))"

text \<open>
  \<^verbatim>\<open>df.groupby(col).size().reset_index(name="Number of Incidents")\<close>: one row per
  distinct key of the column, the keys in ascending order (\<open>sort\<close> is on by default), rows
  whose key is missing left out (\<open>dropna\<close> is on by default), and beside each key the
  number of rows that carry it. A missing key is \<open>None\<close>.
\<close>

definition groupby_size :: "'k::linorder option list \<Rightarrow> ('k \<times> nat) list" where
  "groupby_size col =
     map (\<lambda>k. (k, count_list col (Some k))) (sort (remdups (List.map_filter (\<lambda>c. c) col)))"

text \<open>\<^verbatim>\<open>groupby(key)[col].mean()\<close> over rows given as (key, cell) pairs.\<close>

definition groupby_mean :: "('k::linorder \<times> fnum) list \<Rightarrow> ('k \<times> fnum) list" where
  "groupby_mean rows =
     map (\<lambda>k. (k, series_mean (map snd (filter (\<lambda>r. fst r = k) rows))))
       (sort (remdups (map fst rows)))"

section \<open>Police use-of-force analysis\<close>

subsection \<open>Locating the shapefile\<close>

text \<open>
  The extraction directory as a tree: every directory lists its subdirectories and its
  files, in the order the operating system reports them. \<^verbatim>\<open>os.walk\<close> visits a
  directory before its subdirectories and yields (path, directory names, file names).
\<close>

datatype dir_tree = Dir (subdirs: "(string \<times> dir_tree) list") (files: "string list")

definition path_join :: "string \<Rightarrow> string \<Rightarrow> string" where
  "path_join a b =
     (if b \<noteq> [] \<and> hd b = CHR ''/'' then b
      else if a = [] \<or> last a = CHR ''/'' then a @ b
      else a @ ''/'' @ b)"

fun os_walk :: "string \<Rightarrow> dir_tree \<Rightarrow> (string \<times> string list \<times> string list) list" where
  "os_walk dirpath (Dir ds fs) =
     (dirpath, map fst ds, fs) #
       concat (map (\<lambda>d. os_walk (path_join dirpath (fst d)) (snd d)) ds)"

definition endswith :: "string \<Rightarrow> string \<Rightarrow> bool" where
  "endswith s suf =
     (length suf \<le> length s \<and> drop (length s - length suf) s = suf)"

text \<open>
  Exceptions as values. Every constructor stands for a subclass of Python's
  \<^verbatim>\<open>Exception\<close>; \<open>LibraryError\<close> is whatever pandas, patsy or statsmodels raise,
  with its message.
\<close>

datatype py_error =
    FileNotFoundError
  | ValueError string
  | IndexError
  | ZeroDivisionError
  | TypeError
  | LibraryError string

text \<open>
  The inner loop of lines 86 to 89: the first file of one directory that ends in
  \<^verbatim>\<open>.shp\<close> is stored and the \<^verbatim>\<open>break\<close> leaves this loop (and only this loop).
\<close>

fun scan_files :: "string \<Rightarrow> string list \<Rightarrow> string option \<Rightarrow> string option" where
  "scan_files dirpath [] shp = shp"
| "scan_files dirpath (file # rest) shp =
     (if endswith file ''.shp'' then Some (path_join dirpath file)
      else scan_files dirpath rest shp)"

text \<open>The outer loop of line 85 runs over every directory of the walk.\<close>

fun scan_walk :: "(string \<times> string list \<times> string list) list \<Rightarrow> string option \<Rightarrow> string option" where
  "scan_walk [] shp = shp"
| "scan_walk ((dirpath, dirs, fs) # rest) shp = scan_walk rest (scan_files dirpath fs shp)"

text \<open>
  Lines 84 to 92. \<^verbatim>\<open>not shp_file\<close> holds for \<^verbatim>\<open>None\<close> and for the empty string.
\<close>

definition shp_file :: "string \<Rightarrow> dir_tree \<Rightarrow> py_error + string" where
  "shp_file extract_dir tree =
     (case scan_walk (os_walk extract_dir tree) None of
        None \<Rightarrow> Inl FileNotFoundError
      | Some p \<Rightarrow> if p = [] then Inl FileNotFoundError else Inr p)"

text \<open>
  What the specification describes: the first file ending in \<^verbatim>\<open>.shp\<close> that the walk
  meets, if there is one.
\<close>

definition first_shp_of_walk :: "(string \<times> string list \<times> string list) list \<Rightarrow> string option" where
  "first_shp_of_walk walk =
     (case concat (map (\<lambda>(dirpath, dirs, fs).
             map (path_join dirpath) (filter (\<lambda>f. endswith f ''.shp'') fs)) walk) of
        [] \<Rightarrow> None
      | p # _ \<Rightarrow> Some p)"

subsection \<open>Incident records and the grouped counts\<close>

record date =
  year :: int
  month :: nat
  day :: nat

text \<open>
  One row of the fatal-encounters table, with the columns the script reads. A missing
  cell is \<open>None\<close>; \<open>incident_date\<close> is the column after
  \<^verbatim>\<open>pd.to_datetime(..., errors='coerce')\<close>, where a date that does not parse is
  missing.
\<close>

record incident =
  Location_of_death_state :: "string option"
  Location_of_death_city :: "string option"
  Subject_race :: "string option"
  Subject_age :: "string option"
  incident_date :: "date option"

definition grouped_by_state :: "incident list \<Rightarrow> (string \<times> nat) list" where
  "grouped_by_state df = groupby_size (map Location_of_death_state df)"

definition grouped_by_city :: "incident list \<Rightarrow> (string \<times> nat) list" where
  "grouped_by_city df = groupby_size (map Location_of_death_city df)"

definition grouped_by_race :: "incident list \<Rightarrow> (string \<times> nat) list" where
  "grouped_by_race df = groupby_size (map Subject_race df)"

definition grouped_by_age :: "incident list \<Rightarrow> (string \<times> nat) list" where
  "grouped_by_age df = groupby_size (map Subject_age df)"

text \<open>
  \<^verbatim>\<open>sort_values(by="Number of Incidents", ascending=False)\<close> is a call into pandas
  with the default \<^verbatim>\<open>kind='quicksort'\<close>, which pandas documents as not stable. The
  sort is therefore a parameter \<open>srt\<close> of the model. What the library promises for one
  input is that the result holds the same rows and is in descending order of the count.
\<close>

definition sort_values_desc_ok ::
  "(('k \<times> nat) list \<Rightarrow> ('k \<times> nat) list) \<Rightarrow> ('k \<times> nat) list \<Rightarrow> bool" where
  "sort_values_desc_ok srt rows =
     (mset (srt rows) = mset rows \<and> sorted_wrt (\<lambda>a b. snd b \<le> snd a) (srt rows))"

text \<open>\<^verbatim>\<open>.head(n)\<close> keeps the first \<open>n\<close> rows, or all of them when there are fewer.\<close>

definition head :: "nat \<Rightarrow> 'a list \<Rightarrow> 'a list" where
  "head n rows = take n rows"

definition grouped_by_state_short ::
  "((string \<times> nat) list \<Rightarrow> (string \<times> nat) list) \<Rightarrow> incident list \<Rightarrow> (string \<times> nat) list" where
  "grouped_by_state_short srt df = head 10 (srt (grouped_by_state df))"

definition grouped_by_city_short ::
  "((string \<times> nat) list \<Rightarrow> (string \<times> nat) list) \<Rightarrow> incident list \<Rightarrow> (string \<times> nat) list" where
  "grouped_by_city_short srt df = head 10 (srt (grouped_by_city df))"

definition grouped_by_age_short ::
  "((string \<times> nat) list \<Rightarrow> (string \<times> nat) list) \<Rightarrow> incident list \<Rightarrow> (string \<times> nat) list" where
  "grouped_by_age_short srt df = head 20 (srt (grouped_by_age df))"

text \<open>
  Two sorts that keep the promise. The first is stable: rows of equal count stay in the
  order of the grouped frame. The second sorts ascending and reverses, so rows of equal
  count come out in the opposite order.
\<close>

definition stable_desc :: "('k \<times> nat) list \<Rightarrow> ('k \<times> nat) list" where
  "stable_desc rows = sort_key (\<lambda>r. - int (snd r)) rows"

definition reversed_asc :: "('k \<times> nat) list \<Rightarrow> ('k \<times> nat) list" where
  "reversed_asc rows = rev (sort_key snd rows)"

text \<open>
  The top-N frame as the specification describes it: descending counts, rows of equal
  count in the order of the grouped frame, cut to \<open>n\<close> rows.
\<close>

definition top_n_ties_in_group_order :: "nat \<Rightarrow> ('k \<times> nat) list \<Rightarrow> ('k \<times> nat) list" where
  "top_n_ties_in_group_order n rows = take n (stable_desc rows)"

subsection \<open>The time series\<close>

text \<open>
  Lines 203 to 207. \<open>now_year\<close> is \<^verbatim>\<open>datetime.now().year\<close>, read from the clock when
  the script runs.
\<close>

definition time_series :: "int \<Rightarrow> incident list \<Rightarrow> (int \<times> nat) list" where
  "time_series now_year df =
     filter (\<lambda>r. fst r \<le> now_year)
       (groupby_size (map (\<lambda>i. map_option year (incident_date i)) df))"

subsection \<open>The map frame and the per-capita column\<close>

text \<open>
  One row of the shapefile (the geometry itself plays no part in the numbers), and the
  dictionary of line 177 that turns a state abbreviation into the state's name.
\<close>

record polygon =
  admin :: string
  name :: string




text \<open>
  A cell of the object column \<open>state\<close> of the merged frame is a string or a number; the
  count column is a float column as soon as one polygon has no match.
\<close>

datatype obj = Str string | Num fnum

record merged_row = polygon +
  state :: obj
  Number_of_Incidents :: fnum

definition merged_of :: "polygon \<Rightarrow> obj \<Rightarrow> fnum \<Rightarrow> merged_row" where
  "merged_of p s n = polygon.extend p (merged_row.fields s n)"


text \<open>\<^verbatim>\<open>.fillna(0)\<close> writes 0 into every missing cell.\<close>

definition fillna0 :: "merged_row \<Rightarrow> merged_row" where
  "fillna0 r =
     r\<lparr>state := (if state r = Num NaN then Num (Fin 0) else state r),
       Number_of_Incidents :=
         (if Number_of_Incidents r = NaN then Fin 0 else Number_of_Incidents r)\<rparr>"








subsection \<open>Policy impact\<close>

text \<open>
  The policy table by columns: the two identifier columns and, in the table's column
  order, every policy column with its name. All columns have one cell per city.
\<close>

record policy_frame =
  City :: "string list"
  State :: "string list"
  policy_columns :: "(string \<times> fnum list) list"

text \<open>
  Line 218, \<^verbatim>\<open>melt(id_vars=["City", "State"], var_name="Policy", value_name="Implemented")\<close>:
  one row (City, State, Policy, Implemented) per city and policy column, the policy
  columns one after the other.
\<close>

definition policy_impact :: "policy_frame \<Rightarrow> (string \<times> string \<times> string \<times> fnum) list" where
  "policy_impact policy_df =
     concat (map (\<lambda>pc.
        map (\<lambda>(cs, v). (fst cs, snd cs, fst pc, v))
          (zip (zip (City policy_df) (State policy_df)) (snd pc)))
       (policy_columns policy_df))"

text \<open>Line 219, \<^verbatim>\<open>groupby("Policy")["Implemented"].mean().reset_index()\<close>.\<close>

definition policy_impact_summary :: "policy_frame \<Rightarrow> (string \<times> fnum) list" where
  "policy_impact_summary policy_df =
     groupby_mean (map (\<lambda>(c, s, p, v). (p, v)) (policy_impact policy_df))"

text \<open>Rounding to \<open>n\<close> decimals, as the specification's scenario reports the mean.\<close>

definition round_decimals :: "nat \<Rightarrow> real \<Rightarrow> real" where
  "round_decimals n x = real_of_int (round (x * 10 ^ n)) / 10 ^ n"

subsection \<open>Example tables\<close>

definition incident_in :: "string \<Rightarrow> incident" where
  "incident_in s =
     \<lparr>Location_of_death_state = Some s, Location_of_death_city = None,
      Subject_race = None, Subject_age = None, incident_date = None\<rparr>"

definition incident_on :: "int \<Rightarrow> incident" where
  "incident_on y =
     \<lparr>Location_of_death_state = None, Location_of_death_city = None,
      Subject_race = None, Subject_age = None,
      incident_date = Some \<lparr>year = y, month = 1, day = 1\<rparr>\<rparr>"

definition incident_of :: "string \<Rightarrow> string \<Rightarrow> string \<Rightarrow> incident" where
  "incident_of s c a =
     \<lparr>Location_of_death_state = Some s, Location_of_death_city = Some c,
      Subject_race = None, Subject_age = Some a, incident_date = None\<rparr>"

text \<open>
  A table with twelve states, twelve cities and twenty-two ages, so that each of the
  three truncations drops rows and each grouping has rows of equal count.
\<close>

definition incident_sample :: "incident list" where
  "incident_sample =
     [incident_of ''AL'' ''Mobile'' ''18'', incident_of ''AK'' ''Juneau'' ''19'',
      incident_of ''AZ'' ''Tucson'' ''20'', incident_of ''AR'' ''Conway'' ''21'',
      incident_of ''CA'' ''Fresno'' ''22'', incident_of ''CO'' ''Denver'' ''23'',
      incident_of ''CT'' ''Bristol'' ''24'', incident_of ''DE'' ''Dover'' ''25'',
      incident_of ''FL'' ''Tampa'' ''26'', incident_of ''GA'' ''Macon'' ''27'',
      incident_of ''HI'' ''Hilo'' ''28'', incident_of ''ID'' ''Boise'' ''29'',
      incident_of ''AL'' ''Mobile'' ''30'', incident_of ''AK'' ''Juneau'' ''31'',
      incident_of ''AZ'' ''Tucson'' ''32'', incident_of ''AR'' ''Conway'' ''33'',
      incident_of ''CA'' ''Fresno'' ''34'', incident_of ''CO'' ''Denver'' ''35'',
      incident_of ''CT'' ''Bristol'' ''36'', incident_of ''DE'' ''Dover'' ''37'',
      incident_of ''FL'' ''Tampa'' ''38'', incident_of ''GA'' ''Macon'' ''39'',
      incident_of ''CA'' ''Fresno'' ''22'', incident_of ''CA'' ''Fresno'' ''22'',
      incident_of ''FL'' ''Tampa'' ''26'']"

text \<open>Seven incidents in four states, two of which have one incident each.\<close>

definition ak_al_tied :: "incident list" where
  "ak_al_tied =
     map incident_in [''AK'', ''AL'', ''AR'', ''AZ'', ''AZ'', ''AR'', ''AR'']"

definition ca_ca_tx :: "incident list" where
  "ca_ca_tx = [incident_in ''CA'', incident_in ''CA'', incident_in ''TX'']"

definition chokehold_table :: policy_frame where
  "chokehold_table =
     \<lparr>City = [''Austin'', ''Boston'', ''Chicago''], State = [''TX'', ''MA'', ''IL''],
      policy_columns = [(''chokehold_ban'', [Fin 1, Fin 0, Fin 1])]\<rparr>"



definition two_shapefiles :: dir_tree where
  "two_shapefiles = Dir [(''sub'', Dir [] [''b.shp''])] [''a.shp'', ''a.dbf'']"

text \<open>
  What holds of the top-N frame whatever the library does with rows of equal count: it
  has \<open>n\<close> rows or all of them, its counts descend, its rows are rows of the grouped
  frame, and no row left out has a larger count than a row kept.
\<close>

definition is_top_n :: "nat \<Rightarrow> ('k \<times> nat) list \<Rightarrow> ('k \<times> nat) list \<Rightarrow> bool" where
  "is_top_n n rows out =
     (length out = min n (length rows) \<and>
      sorted_wrt (\<lambda>a b. snd b \<le> snd a) out \<and>
      mset out \<subseteq># mset rows \<and>
      (\<forall>x \<in> set out. \<forall>y \<in># mset rows - mset out. snd y \<le> snd x))"

section \<open>Wage analysis\<close>

subsection \<open>Feature engineering\<close>

text \<open>
  One row of the survey extract after the crosswalk has been merged onto it (line 40):
  the IPUMS columns the script reads and \<open>educdc\<close>, the years of education, which is
  NaN where the crosswalk has no entry for the row's code. \<open>AGE\<close> is squared, so its
  cells say whether the column holds 64-bit integers (no age missing) or floats; the
  other columns enter comparisons and the logarithm only, where both kinds agree.
\<close>

datatype int_or_float = Int64 "64 word" | Float64 fnum

text \<open>
  \<^verbatim>\<open>** 2\<close> on a cell: the product of two 64-bit integers wraps around, the product
  of two floats does not.
\<close>

fun squared :: "int_or_float \<Rightarrow> int_or_float" where
  "squared (Int64 w) = Int64 (w * w)"
| "squared (Float64 a) = Float64 (f_mul a a)"

record survey_row =
  AGE :: int_or_float
  SEX :: fnum
  RACE :: fnum
  HISPAN :: fnum
  MARST :: fnum
  VETSTAT :: fnum
  NCHILD :: fnum
  EDUCD :: fnum
  INCWAGE :: fnum
  educdc :: fnum

record feature_row = survey_row +
  hsdip :: int
  coldip :: int
  white :: int
  black :: int
  hispanic :: int
  married :: int
  female :: int
  vet :: int
  hsdip_educdc :: fnum
  coldip_educdc :: fnum
  age2 :: int_or_float

record wage_row = feature_row +
  lnincwage :: fnum

text \<open>
  Lines 44 to 63 for one row: the eight entries of \<^verbatim>\<open>dummy_vars\<close>, each turned into
  0 or 1 by \<^verbatim>\<open>.astype(int)\<close>, the two interaction terms and the squared age.
\<close>

definition features :: "survey_row \<Rightarrow> feature_row" where
  "features x =
     (let h = astype_int (f_eq (educdc x) 12);
          c = astype_int (f_ge (educdc x) 16)
      in survey_row.extend x
           (feature_row.fields h c
              (astype_int (f_eq (RACE x) 1))
              (astype_int (f_eq (RACE x) 2))
              (astype_int (f_gt (HISPAN x) 0))
              (astype_int (f_eq (MARST x) 1))
              (astype_int (f_eq (SEX x) 2))
              (astype_int (f_eq (VETSTAT x) 2))
              (f_mul (Fin (real_of_int h)) (educdc x))
              (f_mul (Fin (real_of_int c)) (educdc x))
              (squared (AGE x))))"

text \<open>Line 65 for one row.\<close>

definition with_lnincwage :: "feature_row \<Rightarrow> wage_row" where
  "with_lnincwage r = feature_row.extend r (wage_row.fields (np_log (INCWAGE r)))"

text \<open>
  Lines 44 to 65 for the frame: the features of every row, the filter
  \<^verbatim>\<open>df[df["INCWAGE"] > 0]\<close>, then the log column.
\<close>

definition wage_frame :: "survey_row list \<Rightarrow> wage_row list" where
  "wage_frame df =
     map with_lnincwage (filter (\<lambda>r. f_gt (INCWAGE r) 0) (map features df))"

subsection \<open>Wage prediction\<close>

text \<open>
  A frame with one row: its columns in order, each with the cell of row 0. The fitted
  model is seen through \<^verbatim>\<open>model.params\<close>: the names of its predictors and their
  coefficients.
\<close>

type_synonym frame = "(string \<times> fnum) list"

record fitted_model =
  params_index :: "string list"
  params_values :: "fnum list"

text \<open>The keyword arguments of \<^verbatim>\<open>predict_wage\<close> and their defaults (line 132).\<close>

record profile =
  p_educdc :: int
  p_female :: int
  p_white :: int
  p_black :: int
  p_hispanic :: int
  p_married :: int
  p_nchild :: int
  p_vet :: int


text \<open>
  The calls into pandas, patsy, statsmodels and numpy whose result depends on code
  outside the repository. Each may raise.
  \<^item> \<open>loc_setitem td d\<close> is \<^verbatim>\<open>test_data.loc[0, :] = d\<close> for a dictionary \<open>d\<close>.
  \<^item> \<open>dmatrix formula fr\<close> is \<^verbatim>\<open>dmatrix(formula, data=fr, return_type='dataframe')\<close>.
  \<^item> \<open>predict model fr\<close> is \<^verbatim>\<open>model.predict(fr)\<close>, a series of predictions.
  \<^item> \<open>np_exp\<close> and \<open>round_ndigits\<close> are \<^verbatim>\<open>np.exp\<close> and \<^verbatim>\<open>round\<close>.
\<close>

record stats_lib =
  loc_setitem :: "frame \<Rightarrow> (string \<times> fnum) list \<Rightarrow> py_error + frame"
  dmatrix :: "string \<Rightarrow> frame \<Rightarrow> py_error + frame"
  predict :: "fitted_model \<Rightarrow> frame \<Rightarrow> py_error + fnum list"
  np_exp :: "fnum \<Rightarrow> fnum"
  round_ndigits :: "fnum \<Rightarrow> nat \<Rightarrow> fnum"

text \<open>The keys of a Python dictionary built from a list: first occurrences, in order.\<close>

fun dict_keys :: "'a list \<Rightarrow> 'a list" where
  "dict_keys [] = []"
| "dict_keys (k # ks) = k # filter (\<lambda>x. x \<noteq> k) (dict_keys ks)"

text \<open>Line 134.\<close>

definition new_test_data :: "fitted_model \<Rightarrow> frame" where
  "new_test_data model = map (\<lambda>param. (param, Fin 0)) (dict_keys (params_index model))"

text \<open>The dictionary of lines 137 to 150.\<close>

definition known_features :: "profile \<Rightarrow> (string \<times> fnum) list" where
  "known_features prof =
     (let e = p_educdc prof in
      [(''educdc'', Fin (real_of_int e)),
       (''hsdip'', Fin (real_of_int (astype_int (e = 12)))),
       (''coldip'', Fin (real_of_int (astype_int (16 \<le> e)))),
       (''female'', Fin (real_of_int (p_female prof))),
       (''white'', Fin (real_of_int (p_white prof))),
       (''black'', Fin (real_of_int (p_black prof))),
       (''hispanic'', Fin (real_of_int (p_hispanic prof))),
       (''married'', Fin (real_of_int (p_married prof))),
       (''NCHILD'', Fin (real_of_int (p_nchild prof))),
       (''vet'', Fin (real_of_int (p_vet prof))),
       (''hsdip_educdc'', Fin (real_of_int (astype_int (e = 12) * e))),
       (''coldip_educdc'', Fin (real_of_int (astype_int (16 \<le> e) * e)))])"

text \<open>
  \<^verbatim>\<open>test_data[col] = v\<close>: the cell of an existing column is replaced, a new column
  is added at the end.
\<close>

definition setitem :: "frame \<Rightarrow> string \<Rightarrow> fnum \<Rightarrow> frame" where
  "setitem fr col v =
     (if col \<in> fst ` set fr then map (\<lambda>c. if fst c = col then (col, v) else c) fr
      else fr @ [(col, v)])"

text \<open>Lines 153 and 154.\<close>

definition set_age :: "frame \<Rightarrow> int \<Rightarrow> frame" where
  "set_age test_data age =
     setitem (setitem test_data ''AGE'' (Fin (real_of_int age)))
       ''age2'' (Fin (real_of_int (age ^ 2)))"

text \<open>Lines 157 and 158.\<close>

definition spline_input :: "int \<Rightarrow> frame" where
  "spline_input age = [(''AGE'', Fin (real_of_int age))]"

definition spline_formula :: string where
  "spline_formula = ''bs(AGE, df=6, degree=3, include_intercept=True)''"

text \<open>Lines 165 and 166.\<close>

definition rename_intercept :: "frame \<Rightarrow> frame" where
  "rename_intercept spline_features =
     (if ''Intercept'' \<in> fst ` set spline_features
      then map (\<lambda>c. if fst c = ''Intercept'' then (''const'', snd c) else c) spline_features
      else spline_features)"

text \<open>
  The loop of lines 169 to 171: a spline column is copied only when the frame already
  has a column of that name.
\<close>

fun add_spline_features :: "frame \<Rightarrow> frame \<Rightarrow> frame" where
  "add_spline_features [] test_data = test_data"
| "add_spline_features (c # rest) test_data =
     add_spline_features rest
       (if fst c \<in> fst ` set test_data then setitem test_data (fst c) (snd c)
        else test_data)"

text \<open>Lines 174 and 175.\<close>

definition add_constant :: "frame \<Rightarrow> frame" where
  "add_constant test_data =
     (if ''const'' \<notin> fst ` set test_data then (''const'', Fin 1) # test_data
      else test_data)"

text \<open>The frame handed to \<^verbatim>\<open>model.predict\<close>, from the spline frame.\<close>

definition completed :: "frame \<Rightarrow> frame \<Rightarrow> frame" where
  "completed test_data spline_features =
     add_constant (add_spline_features (rename_intercept spline_features) test_data)"

text \<open>What the routine prints.\<close>

datatype printed = Warning_NaN | Error_message py_error

text \<open>
  The body of the \<^verbatim>\<open>try\<close>, lines 161 to 187: the lines printed, and the exception
  raised or the value returned. \<^verbatim>\<open>isna().any()\<close> asks whether some prediction is
  NaN; \<^verbatim>\<open>.iloc[0]\<close> raises on an empty series.
\<close>

definition try_body ::
  "stats_lib \<Rightarrow> int \<Rightarrow> fitted_model \<Rightarrow> frame \<Rightarrow> printed list \<times> (py_error + fnum)" where
  "try_body lib age model test_data =
     (case dmatrix lib spline_formula (spline_input age) of
        Inl e \<Rightarrow> ([], Inl e)
      | Inr spline_features \<Rightarrow>
          (let td = completed test_data spline_features in
           case predict lib model td of
             Inl e \<Rightarrow> ([], Inl e)
           | Inr checked \<Rightarrow>
               (let out = (if NaN \<in> set checked then [Warning_NaN] else []) in
                case predict lib model td of
                  Inl e \<Rightarrow> (out, Inl e)
                | Inr pred_log_wage \<Rightarrow>
                    if NaN \<in> set pred_log_wage
                    then (out, Inl (ValueError ''Prediction resulted in NaN''))
                    else (case pred_log_wage of
                            [] \<Rightarrow> (out, Inl IndexError)
                          | v # _ \<Rightarrow> (out, Inr (round_ndigits lib (np_exp lib v) 2))))))"

text \<open>
  Lines 132 to 191. The frame is built before the \<^verbatim>\<open>try\<close>, so an exception there
  leaves the routine (\<open>Inl\<close>); an exception of the body is printed and the routine
  returns \<^verbatim>\<open>None\<close>. The argument \<open>df\<close> is the routine's third parameter.
\<close>

definition predict_wage ::
  "stats_lib \<Rightarrow> int \<Rightarrow> fitted_model \<Rightarrow> 'd \<Rightarrow> profile \<Rightarrow>
     printed list \<times> (py_error + fnum option)" where
  "predict_wage lib age model df prof =
     (case loc_setitem lib (new_test_data model) (known_features prof) of
        Inl e \<Rightarrow> ([], Inl e)
      | Inr populated \<Rightarrow>
          (case try_body lib age model (set_age populated age) of
             (out, Inl e) \<Rightarrow> (out @ [Error_message e], Inr None)
           | (out, Inr predicted_wage) \<Rightarrow> (out, Inr (Some predicted_wage))))"

subsection \<open>Example rows and libraries\<close>

definition survey_example :: "fnum \<Rightarrow> fnum \<Rightarrow> survey_row" where
  "survey_example wage educ =
     \<lparr>AGE = Int64 30, SEX = Fin 2, RACE = Fin 1, HISPAN = Fin 0, MARST = Fin 1,
      VETSTAT = Fin 1, NCHILD = Fin 0, EDUCD = Fin 101, INCWAGE = wage, educdc = educ\<rparr>"







section \<open>Properties of the police analysis\<close>

subsection \<open>Grouped counts\<close>

lemma map_filter_present: "set (List.map_filter (\<lambda>c. c) col) = {k. Some k \<in> set col}"
  by (auto simp: List.map_filter_def intro: rev_image_eqI)

lemma groupby_size_keys:
  "map fst (groupby_size col) = sort (remdups (List.map_filter (\<lambda>c. c) col))"
  by (simp add: groupby_size_def comp_def)

lemma groupby_size_key_set: "fst ` set (groupby_size col) = {k. Some k \<in> set col}"
proof -
  have "fst ` set (groupby_size col) = set (map fst (groupby_size col))" by simp
  also have "\<dots> = {k. Some k \<in> set col}"
    by (simp only: groupby_size_keys set_sort set_remdups map_filter_present)
  finally show ?thesis .
qed

lemma groupby_size_distinct: "distinct (map fst (groupby_size col))"
  by (simp add: groupby_size_keys)

lemma groupby_size_row:
  "r \<in> set (groupby_size col) \<longleftrightarrow>
     Some (fst r) \<in> set col \<and> snd r = count_list col (Some (fst r))"
  by (cases r) (auto simp: groupby_size_def map_filter_present)

lemma groupby_size_length: "length (groupby_size col) = card {k. Some k \<in> set col}"
proof -
  have "length (groupby_size col) = length (map fst (groupby_size col))" by simp
  also have "\<dots> = card (set (map fst (groupby_size col)))"
    using groupby_size_distinct[of col] by (simp only: distinct_card)
  also have "\<dots> = card {k. Some k \<in> set col}"
    using groupby_size_key_set[of col] by simp
  finally show ?thesis .
qed

lemma count_list_map: "count_list (map f xs) k = length (filter (\<lambda>x. f x = k) xs)"
  by (induction xs) auto

lemma count_list_filter_in:
  "k \<in> S \<Longrightarrow> count_list (filter (\<lambda>x. x \<in> S) xs) k = count_list xs k"
  by (induction xs) auto

lemma sum_counts_distinct:
  assumes "distinct ks"
  shows "sum_list (map (count_list xs) ks) = length (filter (\<lambda>x. x \<in> set ks) xs)"
proof -
  let ?ys = "filter (\<lambda>x. x \<in> set ks) xs"
  have "sum_list (map (count_list xs) ks) = sum (count_list xs) (set ks)"
    using assms by (simp add: sum_list_distinct_conv_sum_set)
  also have "\<dots> = sum (count_list ?ys) (set ks)"
    by (rule sum.cong) (simp_all add: count_list_filter_in)
  also have "\<dots> = length ?ys"
    by (rule sum_count_set) auto
  finally show ?thesis .
qed

lemma groupby_size_total:
  "sum_list (map snd (filter (\<lambda>r. P (fst r)) (groupby_size col))) =
     length (filter (\<lambda>c. case c of None \<Rightarrow> False | Some k \<Rightarrow> P k) col)"
proof -
  let ?keys = "sort (remdups (List.map_filter (\<lambda>c. c) col))"
  let ?ks = "map Some (filter P ?keys)"
  have d: "distinct ?ks" by (simp add: distinct_map)
  have "filter (\<lambda>r. P (fst r)) (groupby_size col) =
          map (\<lambda>k. (k, count_list col (Some k))) (filter P ?keys)"
    by (simp add: groupby_size_def filter_map comp_def)
  then have "sum_list (map snd (filter (\<lambda>r. P (fst r)) (groupby_size col))) =
          sum_list (map (count_list col) ?ks)"
    by (simp add: comp_def)
  also have "\<dots> = length (filter (\<lambda>x. x \<in> set ?ks) col)"
    using d by (rule sum_counts_distinct)
  also have "filter (\<lambda>x. x \<in> set ?ks) col =
          filter (\<lambda>c. case c of None \<Rightarrow> False | Some k \<Rightarrow> P k) col"
    by (rule filter_cong) (auto simp: map_filter_present split: option.splits)
  finally show ?thesis .
qed

lemma grouped_by_state_ca_ca_tx: "grouped_by_state ca_ca_tx = [(''CA'', 2), (''TX'', 1)]"
  by (simp add: grouped_by_state_def ca_ca_tx_def incident_in_def groupby_size_def
      List.map_filter_def)

lemma policy_impact_chokehold:
  "policy_impact chokehold_table =
     [(''Austin'', ''TX'', ''chokehold_ban'', Fin 1),
      (''Boston'', ''MA'', ''chokehold_ban'', Fin 0),
      (''Chicago'', ''IL'', ''chokehold_ban'', Fin 1)]"
  by (simp add: policy_impact_def chokehold_table_def)

text \<open>
  C8. For the incident table whose state column is CA, CA, TX the grouped count is
  CA 2, TX 1; for the policy table with the single policy column chokehold_ban holding
  1, 0, 1 over three cities the summary has one row, its mean is 2/3, and 2/3 rounded to
  three decimals is 0.667.
\<close>

theorem scenario_counts_and_policy_mean:
  "map Location_of_death_state ca_ca_tx = [Some ''CA'', Some ''CA'', Some ''TX''] \<and>
   grouped_by_state ca_ca_tx = [(''CA'', 2), (''TX'', 1)] \<and>
   policy_columns chokehold_table = [(''chokehold_ban'', [Fin 1, Fin 0, Fin 1])] \<and>
   policy_impact_summary chokehold_table = [(''chokehold_ban'', Fin (2 / 3))] \<and>
   round_decimals 3 (2 / 3) = 0.667"
proof -
  have "map Location_of_death_state ca_ca_tx = [Some ''CA'', Some ''CA'', Some ''TX'']"
    by (simp add: ca_ca_tx_def incident_in_def)
  moreover have "policy_columns chokehold_table = [(''chokehold_ban'', [Fin 1, Fin 0, Fin 1])]"
    by (simp add: chokehold_table_def)
  moreover have "policy_impact_summary chokehold_table = [(''chokehold_ban'', Fin (2 / 3))]"
    by (simp add: policy_impact_summary_def policy_impact_chokehold groupby_mean_def
        series_mean_def series_sum_def)
  moreover have "round_decimals 3 (2 / 3) = 0.667"
    by (simp add: round_decimals_def round_def)
  ultimately show ?thesis
    using grouped_by_state_ca_ca_tx by simp
qed

subsection \<open>Top-N frames\<close>

lemma grouped_by_state_incident_sample:
  "grouped_by_state incident_sample =
     [(''AK'', 2), (''AL'', 2), (''AR'', 2), (''AZ'', 2), (''CA'', 4), (''CO'', 2),
      (''CT'', 2), (''DE'', 2), (''FL'', 3), (''GA'', 2), (''HI'', 1), (''ID'', 1)]"
  by (simp add: grouped_by_state_def incident_sample_def incident_of_def groupby_size_def
      List.map_filter_def)

lemma grouped_by_city_incident_sample:
  "grouped_by_city incident_sample =
     [(''Boise'', 1), (''Bristol'', 2), (''Conway'', 2), (''Denver'', 2), (''Dover'', 2),
      (''Fresno'', 4), (''Hilo'', 1), (''Juneau'', 2), (''Macon'', 2), (''Mobile'', 2),
      (''Tampa'', 3), (''Tucson'', 2)]"
  by (simp add: grouped_by_city_def incident_sample_def incident_of_def groupby_size_def
      List.map_filter_def)

lemma grouped_by_age_incident_sample:
  "grouped_by_age incident_sample =
     [(''18'', 1), (''19'', 1), (''20'', 1), (''21'', 1), (''22'', 3), (''23'', 1),
      (''24'', 1), (''25'', 1), (''26'', 2), (''27'', 1), (''28'', 1), (''29'', 1),
      (''30'', 1), (''31'', 1), (''32'', 1), (''33'', 1), (''34'', 1), (''35'', 1),
      (''36'', 1), (''37'', 1), (''38'', 1), (''39'', 1)]"
  by (simp add: grouped_by_age_def incident_sample_def incident_of_def groupby_size_def
      List.map_filter_def)


lemma head_sorted_is_top_n:
  assumes "sort_values_desc_ok srt rows"
  shows "is_top_n n rows (head n (srt rows))"
proof -
  let ?s = "srt rows"
  from assms have m: "mset ?s = mset rows"
    and s: "sorted_wrt (\<lambda>a b. snd b \<le> snd a) ?s"
    by (simp_all add: sort_values_desc_ok_def)
  have len: "length ?s = length rows"
    using m by (metis size_mset)
  have parts: "mset rows = mset (take n ?s) + mset (drop n ?s)"
    using m by (metis append_take_drop_id mset_append)
  have s2: "sorted_wrt (\<lambda>a b. snd b \<le> snd a) (take n ?s @ drop n ?s)"
    using s by simp
  have "sorted_wrt (\<lambda>a b. snd b \<le> snd a) (take n ?s)"
    using s2 unfolding sorted_wrt_append by blast
  moreover have "\<forall>x \<in> set (take n ?s). \<forall>y \<in> set (drop n ?s). snd y \<le> snd x"
    using s2 unfolding sorted_wrt_append by blast
  moreover have "mset rows - mset (take n ?s) = mset (drop n ?s)"
    using parts by simp
  moreover have "mset (take n ?s) \<subseteq># mset rows"
    using parts by simp
  ultimately show ?thesis
    by (simp add: is_top_n_def head_def len)
qed

lemma stable_desc_ok: "sort_values_desc_ok stable_desc rows"
proof -
  have "sorted (map (\<lambda>r. - int (snd r)) (stable_desc rows))"
    by (simp add: stable_desc_def)
  then have "sorted_wrt (\<lambda>a b. snd b \<le> snd a) (stable_desc rows)"
    by (simp add: sorted_wrt_map)
  then show ?thesis
    by (simp add: sort_values_desc_ok_def stable_desc_def)
qed

lemma reversed_asc_ok: "sort_values_desc_ok reversed_asc rows"
proof -
  have "sorted (map snd (sort_key snd rows))"
    by simp
  then have "sorted_wrt (\<lambda>a b. snd a \<le> snd b) (sort_key snd rows)"
    by (simp add: sorted_wrt_map)
  then have "sorted_wrt (\<lambda>a b. snd b \<le> snd a) (rev (sort_key snd rows))"
    by (simp add: sorted_wrt_rev)
  then show ?thesis
    by (simp add: sort_values_desc_ok_def reversed_asc_def)
qed

text \<open>
  The stable sort is one admissible behaviour of the library, and with it the top-N
  frame is the one the specification describes.
\<close>

lemma stable_sort_gives_group_order:
  "grouped_by_state_short stable_desc df = top_n_ties_in_group_order 10 (grouped_by_state df)"
  by (simp add: grouped_by_state_short_def top_n_ties_in_group_order_def head_def)

text \<open>
  C3, as amended. Whenever the library's sort returns the grouped rows in descending
  order of the count, each truncated frame (10 rows by state and by city, 20 by age) has
  exactly N rows, or all rows when there are fewer than N categories, is sorted by
  descending count, consists of rows of the grouped frame, and leaves out no row with a
  larger count than a row it keeps. The order of rows with equal counts is the
  library's: the source asks for no stable sort.
\<close>

theorem grouped_short_is_top_n:
  assumes "sort_values_desc_ok srt (grouped_by_state df)"
    and "sort_values_desc_ok srt (grouped_by_city df)"
    and "sort_values_desc_ok srt (grouped_by_age df)"
  shows "is_top_n 10 (grouped_by_state df) (grouped_by_state_short srt df) \<and>
         is_top_n 10 (grouped_by_city df) (grouped_by_city_short srt df) \<and>
         is_top_n 20 (grouped_by_age df) (grouped_by_age_short srt df) \<and>
         length (grouped_by_state df) = card {k. Some k \<in> set (map Location_of_death_state df)} \<and>
         length (grouped_by_city df) = card {k. Some k \<in> set (map Location_of_death_city df)} \<and>
         length (grouped_by_age df) = card {k. Some k \<in> set (map Subject_age df)}"
proof -
  have "is_top_n 10 (grouped_by_state df) (grouped_by_state_short srt df)"
    unfolding grouped_by_state_short_def using assms(1) by (rule head_sorted_is_top_n)
  moreover have "is_top_n 10 (grouped_by_city df) (grouped_by_city_short srt df)"
    unfolding grouped_by_city_short_def using assms(2) by (rule head_sorted_is_top_n)
  moreover have "is_top_n 20 (grouped_by_age df) (grouped_by_age_short srt df)"
    unfolding grouped_by_age_short_def using assms(3) by (rule head_sorted_is_top_n)
  ultimately show ?thesis
    by (simp add: grouped_by_state_def grouped_by_city_def grouped_by_age_def
        groupby_size_length)
qed

theorem grouped_short_is_top_n_witness:
  "sort_values_desc_ok reversed_asc (grouped_by_state incident_sample) \<and>
   sort_values_desc_ok reversed_asc (grouped_by_city incident_sample) \<and>
   sort_values_desc_ok reversed_asc (grouped_by_age incident_sample) \<and>
   is_top_n 10 (grouped_by_state incident_sample)
     (grouped_by_state_short reversed_asc incident_sample) \<and>
   is_top_n 10 (grouped_by_city incident_sample)
     (grouped_by_city_short reversed_asc incident_sample) \<and>
   is_top_n 20 (grouped_by_age incident_sample)
     (grouped_by_age_short reversed_asc incident_sample) \<and>
   map snd (grouped_by_state incident_sample) = [2, 2, 2, 2, 4, 2, 2, 2, 3, 2, 1, 1] \<and>
   map snd (grouped_by_state_short reversed_asc incident_sample) =
     [4, 3, 2, 2, 2, 2, 2, 2, 2, 2] \<and>
   map snd (grouped_by_city incident_sample) = [1, 2, 2, 2, 2, 4, 1, 2, 2, 2, 3, 2] \<and>
   map snd (grouped_by_city_short reversed_asc incident_sample) =
     [4, 3, 2, 2, 2, 2, 2, 2, 2, 2] \<and>
   length (grouped_by_age incident_sample) = 22 \<and>
   map snd (grouped_by_age_short reversed_asc incident_sample) =
     [3, 2, 1, 1, 1, 1, 1, 1, 1, 1, 1, 1, 1, 1, 1, 1, 1, 1, 1, 1]"
proof -
  have ok: "sort_values_desc_ok reversed_asc (grouped_by_state incident_sample)"
    "sort_values_desc_ok reversed_asc (grouped_by_city incident_sample)"
    "sort_values_desc_ok reversed_asc (grouped_by_age incident_sample)"
    by (rule reversed_asc_ok)+
  have st: "map snd (grouped_by_state incident_sample) = [2, 2, 2, 2, 4, 2, 2, 2, 3, 2, 1, 1]"
    by (simp add: grouped_by_state_incident_sample)
  have st_short: "map snd (grouped_by_state_short reversed_asc incident_sample) =
      [4, 3, 2, 2, 2, 2, 2, 2, 2, 2]"
    by (simp add: grouped_by_state_short_def grouped_by_state_incident_sample
        reversed_asc_def head_def)
  have ci: "map snd (grouped_by_city incident_sample) = [1, 2, 2, 2, 2, 4, 1, 2, 2, 2, 3, 2]"
    by (simp add: grouped_by_city_incident_sample)
  have ci_short: "map snd (grouped_by_city_short reversed_asc incident_sample) =
      [4, 3, 2, 2, 2, 2, 2, 2, 2, 2]"
    by (simp add: grouped_by_city_short_def grouped_by_city_incident_sample
        reversed_asc_def head_def)
  have ag: "length (grouped_by_age incident_sample) = 22"
    by (simp add: grouped_by_age_incident_sample)
  have ag_short: "map snd (grouped_by_age_short reversed_asc incident_sample) =
      [3, 2, 1, 1, 1, 1, 1, 1, 1, 1, 1, 1, 1, 1, 1, 1, 1, 1, 1, 1]"
    by (simp add: grouped_by_age_short_def grouped_by_age_incident_sample
        reversed_asc_def head_def)
  from grouped_short_is_top_n [OF ok] ok st st_short ci ci_short ag ag_short
  show ?thesis by simp
qed

text \<open>
  C3 as stated fails on the seven incidents in AK, AL, AR, AZ, AZ, AR, AR. The grouped
  frame lists AK before AL, each with one incident; a descending sort obtained by sorting
  ascending and reversing returns AR, AZ, AL, AK, with the two tied states in the
  opposite of their group order.
\<close>

theorem grouped_short_tie_order_counterexample:
  "map Location_of_death_state ak_al_tied =
     [Some ''AK'', Some ''AL'', Some ''AR'', Some ''AZ'', Some ''AZ'', Some ''AR'', Some ''AR''] \<and>
   grouped_by_state ak_al_tied = [(''AK'', 1), (''AL'', 1), (''AR'', 3), (''AZ'', 2)] \<and>
   sort_values_desc_ok reversed_asc (grouped_by_state ak_al_tied) \<and>
   grouped_by_state_short reversed_asc ak_al_tied =
     [(''AR'', 3), (''AZ'', 2), (''AL'', 1), (''AK'', 1)] \<and>
   top_n_ties_in_group_order 10 (grouped_by_state ak_al_tied) =
     [(''AR'', 3), (''AZ'', 2), (''AK'', 1), (''AL'', 1)] \<and>
   grouped_by_state_short reversed_asc ak_al_tied \<noteq>
     top_n_ties_in_group_order 10 (grouped_by_state ak_al_tied)"
proof -
  have g: "grouped_by_state ak_al_tied = [(''AK'', 1), (''AL'', 1), (''AR'', 3), (''AZ'', 2)]"
    by (simp add: grouped_by_state_def ak_al_tied_def incident_in_def groupby_size_def
        List.map_filter_def)
  have a: "grouped_by_state_short reversed_asc ak_al_tied =
      [(''AR'', 3), (''AZ'', 2), (''AL'', 1), (''AK'', 1)]"
    by (simp add: grouped_by_state_short_def g reversed_asc_def head_def)
  have b: "top_n_ties_in_group_order 10 (grouped_by_state ak_al_tied) =
      [(''AR'', 3), (''AZ'', 2), (''AK'', 1), (''AL'', 1)]"
    by (simp add: g top_n_ties_in_group_order_def stable_desc_def)
  have c: "map Location_of_death_state ak_al_tied =
     [Some ''AK'', Some ''AL'', Some ''AR'', Some ''AZ'', Some ''AZ'', Some ''AR'', Some ''AR'']"
    by (simp add: ak_al_tied_def incident_in_def)
  have d: "sort_values_desc_ok reversed_asc (grouped_by_state ak_al_tied)"
    by (rule reversed_asc_ok)
  show ?thesis
    unfolding a b using c d g by simp
qed

subsection \<open>The time series\<close>

text \<open>
  C10. No row of the time series has a year after the year the script runs in; the year
  of an incident with a parsed date is in the time series exactly when it is not in the
  future; each row counts the incidents of its year; and the counts add up to the number
  of incidents whose date parsed and is not in a future year, so that incidents without a
  parsed date are counted nowhere.
\<close>

theorem time_series_no_future_year:
  "(\<forall>r \<in> set (time_series now_year df).
       fst r \<le> now_year \<and>
       snd r = length (filter (\<lambda>i. map_option year (incident_date i) = Some (fst r)) df)) \<and>
   (\<forall>i \<in> set df. \<forall>d. incident_date i = Some d \<longrightarrow>
       (year d \<in> fst ` set (time_series now_year df)) = (year d \<le> now_year)) \<and>
   sum_list (map snd (time_series now_year df)) =
     length (filter (\<lambda>i. case incident_date i of None \<Rightarrow> False
                          | Some d \<Rightarrow> year d \<le> now_year) df)"
proof -
  let ?col = "map (\<lambda>i. map_option year (incident_date i)) df"
  have rows: "\<forall>r \<in> set (time_series now_year df).
       fst r \<le> now_year \<and>
       snd r = length (filter (\<lambda>i. map_option year (incident_date i) = Some (fst r)) df)"
  proof
    fix r assume "r \<in> set (time_series now_year df)"
    then have le: "fst r \<le> now_year" and "r \<in> set (groupby_size ?col)"
      by (simp_all add: time_series_def)
    then have "snd r = count_list ?col (Some (fst r))"
      by (simp add: groupby_size_row)
    also have "\<dots> = length (filter (\<lambda>i. map_option year (incident_date i) = Some (fst r)) df)"
      by (rule count_list_map)
    finally show "fst r \<le> now_year \<and>
       snd r = length (filter (\<lambda>i. map_option year (incident_date i) = Some (fst r)) df)"
      using le by simp
  qed
  have keys: "fst ` set (time_series now_year df) =
      {y. Some y \<in> set ?col \<and> y \<le> now_year}"
    using groupby_size_key_set[of ?col] by (auto simp: time_series_def)
  have years: "\<forall>i \<in> set df. \<forall>d. incident_date i = Some d \<longrightarrow>
       (year d \<in> fst ` set (time_series now_year df)) = (year d \<le> now_year)"
  proof (intro ballI allI impI)
    fix i d assume "i \<in> set df" "incident_date i = Some d"
    then have "Some (year d) \<in> set ?col" by force
    then show "(year d \<in> fst ` set (time_series now_year df)) = (year d \<le> now_year)"
      unfolding keys by simp
  qed
  have "sum_list (map snd (time_series now_year df)) =
      length (filter (\<lambda>c. case c of None \<Rightarrow> False | Some k \<Rightarrow> k \<le> now_year) ?col)"
    unfolding time_series_def by (rule groupby_size_total)
  also have "\<dots> = length (filter (\<lambda>i. case incident_date i of None \<Rightarrow> False
                          | Some d \<Rightarrow> year d \<le> now_year) df)"
    by (simp add: filter_map comp_def option.case_eq_if option.map_sel)
  finally show ?thesis using rows years by blast
qed

theorem time_series_no_future_year_witness:
  "incident_on 2100 \<in> set [incident_on 2100, incident_on 2020, incident_in ''CA''] \<and>
   incident_date (incident_on 2100) = Some \<lparr>year = 2100, month = 1, day = 1\<rparr> \<and>
   time_series 2024 [incident_on 2100, incident_on 2020, incident_in ''CA''] = [(2020, 1)] \<and>
   2100 \<notin> fst ` set (time_series 2024 [incident_on 2100, incident_on 2020, incident_in ''CA''])"
proof -
  have "time_series 2024 [incident_on 2100, incident_on 2020, incident_in ''CA''] = [(2020, 1)]"
    by (simp add: time_series_def incident_on_def incident_in_def groupby_size_def
        List.map_filter_def)
  then show ?thesis
    using time_series_no_future_year
      [of 2024 "[incident_on 2100, incident_on 2020, incident_in ''CA'']"]
    by (simp add: incident_on_def)
qed

subsection \<open>The shapefile\<close>

lemma scan_files_none:
  "\<forall>f \<in> set fs. \<not> endswith f ''.shp'' \<Longrightarrow> scan_files d fs shp = shp"
  by (induction fs) auto

lemma scan_walk_none:
  "\<forall>e \<in> set walk. \<forall>f \<in> set (snd (snd e)). \<not> endswith f ''.shp'' \<Longrightarrow>
     scan_walk walk shp = shp"
  by (induction walk shp rule: scan_walk.induct) (auto simp: scan_files_none)

text \<open>
  The second half of C7 holds: when no file of the walk ends in \<^verbatim>\<open>.shp\<close>, the
  script raises \<^verbatim>\<open>FileNotFoundError\<close>.
\<close>

lemma shp_file_missing:
  assumes "\<forall>e \<in> set (os_walk extract_dir tree). \<forall>f \<in> set (snd (snd e)). \<not> endswith f ''.shp''"
  shows "shp_file extract_dir tree = Inl FileNotFoundError"
  using scan_walk_none[OF assms, of None] by (simp add: shp_file_def)

text \<open>
  C7, first half, at a tree with \<^verbatim>\<open>a.shp\<close> in the extraction directory and
  \<^verbatim>\<open>b.shp\<close> in a subdirectory: the walk meets \<^verbatim>\<open>a.shp\<close> first, and the script
  selects \<^verbatim>\<open>sub/b.shp\<close>, because the \<^verbatim>\<open>break\<close> ends the scan of one directory and
  the walk goes on to the next.
\<close>

theorem shp_file_later_directory_wins:
  "os_walk ''/tmp/police_data/us_states'' two_shapefiles =
     [(''/tmp/police_data/us_states'', [''sub''], [''a.shp'', ''a.dbf'']),
      (''/tmp/police_data/us_states/sub'', [], [''b.shp''])] \<and>
   first_shp_of_walk (os_walk ''/tmp/police_data/us_states'' two_shapefiles) =
     Some ''/tmp/police_data/us_states/a.shp'' \<and>
   shp_file ''/tmp/police_data/us_states'' two_shapefiles =
     Inr ''/tmp/police_data/us_states/sub/b.shp''"
  by (simp add: shp_file_def first_shp_of_walk_def two_shapefiles_def endswith_def path_join_def)

subsection \<open>The per-capita column\<close>




lemma merged_of_sel [simp]:
  "name (merged_of p s n) = name p"
  "admin (merged_of p s n) = admin p"
  "state (merged_of p s n) = s"
  "Number_of_Incidents (merged_of p s n) = n"
  by (simp_all add: merged_of_def polygon.extend_def merged_row.fields_def)

lemma fillna0_sel [simp]:
  "name (fillna0 r) = name r"
  "admin (fillna0 r) = admin r"
  "Number_of_Incidents (fillna0 r) =
     (if Number_of_Incidents r = NaN then Fin 0 else Number_of_Incidents r)"
  by (simp_all add: fillna0_def)














section \<open>Properties of the wage analysis\<close>

subsection \<open>Feature engineering\<close>

lemma features_sel [simp]:
  "hsdip (features x) = astype_int (f_eq (educdc x) 12)"
  "coldip (features x) = astype_int (f_ge (educdc x) 16)"
  "INCWAGE (features x) = INCWAGE x"
  "educdc (features x) = educdc x"
  "survey_row.truncate (features x) = x"
  by (simp_all add: features_def Let_def survey_row.extend_def feature_row.fields_def
      survey_row.truncate_def)

lemma with_lnincwage_sel [simp]:
  "lnincwage (with_lnincwage r) = np_log (INCWAGE r)"
  "INCWAGE (with_lnincwage r) = INCWAGE r"
  "survey_row.truncate (with_lnincwage r) = survey_row.truncate r"
  by (simp_all add: with_lnincwage_def feature_row.extend_def wage_row.fields_def
      survey_row.truncate_def)

lemma astype_int_one [simp]: "(astype_int b = 1) = b" "(astype_int b = 0) = (\<not> b)"
  by (simp_all add: astype_int_def)

text \<open>
  C2. For every merged survey row, \<open>hsdip\<close> is 1 exactly when \<open>educdc\<close> equals 12 and
  \<open>coldip\<close> is 1 exactly when \<open>educdc\<close> is at least 16 (both are 0 otherwise, also on a
  missing \<open>educdc\<close>). The two are never 1 together, which is more than the claim's
  "both only if \<open>educdc\<close> is at least 16"; at exactly 16 \<open>coldip\<close> is 1 and \<open>hsdip\<close>
  is 0.
\<close>

theorem education_indicators:
  "(hsdip (features x) = 1) = (educdc x = Fin 12) \<and>
   (coldip (features x) = 1) = f_ge (educdc x) 16 \<and>
   hsdip (features x) \<in> {0, 1} \<and> coldip (features x) \<in> {0, 1} \<and>
   \<not> (hsdip (features x) = 1 \<and> coldip (features x) = 1) \<and>
   (educdc x = Fin 16 \<longrightarrow> coldip (features x) = 1 \<and> hsdip (features x) = 0)"
proof -
  have eq12: "f_eq (educdc x) 12 = (educdc x = Fin 12)"
    by (cases "educdc x") simp_all
  have both: "\<not> (f_eq (educdc x) 12 \<and> f_ge (educdc x) 16)"
    by (cases "educdc x") simp_all
  have range: "astype_int b \<in> {0, 1}" for b
    by (simp add: astype_int_def)
  show ?thesis
    using both by (auto simp: eq12 range)
qed

theorem education_indicators_witness:
  "educdc (survey_example (Fin 50000) (Fin 16)) = Fin 16 \<and>
   coldip (features (survey_example (Fin 50000) (Fin 16))) = 1 \<and>
   hsdip (features (survey_example (Fin 50000) (Fin 16))) = 0 \<and>
   hsdip (features (survey_example (Fin 50000) (Fin 12))) = 1 \<and>
   coldip (features (survey_example (Fin 50000) (Fin 12))) = 0"
  using education_indicators [of "survey_example (Fin 50000) (Fin 16)"]
    education_indicators [of "survey_example (Fin 50000) (Fin 12)"]
  by (simp add: survey_example_def)

lemma wage_frame_rows:
  "map survey_row.truncate (wage_frame df) = filter (\<lambda>r. f_gt (INCWAGE r) 0) df"
  by (induction df) (simp_all add: wage_frame_def)

lemma length_filter_split: "length xs = length (filter P xs) + length (filter (\<lambda>x. \<not> P x) xs)"
  by (induction xs) simp_all

text \<open>
  C6. The filter keeps exactly the rows whose wage income is strictly positive, in their
  order; the number of rows removed is the input row count minus the output row count
  and is the number of input rows whose wage is not positive; and in every retained row
  \<open>lnincwage\<close> is \<^verbatim>\<open>np.log\<close> of \<open>INCWAGE\<close>, the natural logarithm of the
  (positive) wage.
\<close>

theorem wage_filter_and_log:
  "map survey_row.truncate (wage_frame df) = filter (\<lambda>r. f_gt (INCWAGE r) 0) df \<and>
   length df - length (wage_frame df) = length (filter (\<lambda>r. \<not> f_gt (INCWAGE r) 0) df) \<and>
   length (wage_frame df) \<le> length df \<and>
   (\<forall>r \<in> set (wage_frame df).
      f_gt (INCWAGE r) 0 \<and> lnincwage r = np_log (INCWAGE r) \<and>
      (\<forall>w. INCWAGE r = Fin w \<longrightarrow> 0 < w \<and> lnincwage r = Fin (ln w)))"
proof -
  let ?keep = "\<lambda>r. f_gt (INCWAGE r) 0"
  have rows: "map survey_row.truncate (wage_frame df) = filter ?keep df"
    by (rule wage_frame_rows)
  then have len: "length (wage_frame df) = length (filter ?keep df)"
    by (metis length_map)
  have removed: "length df - length (wage_frame df) = length (filter (\<lambda>r. \<not> ?keep r) df)"
    using length_filter_split[of df ?keep] len by simp
  have le: "length (wage_frame df) \<le> length df"
    using len by simp
  have logs: "\<forall>r \<in> set (wage_frame df).
      f_gt (INCWAGE r) 0 \<and> lnincwage r = np_log (INCWAGE r) \<and>
      (\<forall>w. INCWAGE r = Fin w \<longrightarrow> 0 < w \<and> lnincwage r = Fin (ln w))"
    by (auto simp: wage_frame_def)
  from rows removed le logs show ?thesis by blast
qed

theorem wage_filter_and_log_witness:
  "map (\<lambda>r. (INCWAGE r, lnincwage r))
     (wage_frame [survey_example (Fin 1) (Fin 16), survey_example (Fin 0) (Fin 12),
                  survey_example NaN (Fin 12), survey_example (Fin 50000) (Fin 10),
                  survey_example (Fin (- 4)) (Fin 10)]) =
     [(Fin 1, Fin 0), (Fin 50000, Fin (ln 50000))] \<and>
   length (filter (\<lambda>r. \<not> f_gt (INCWAGE r) 0)
     [survey_example (Fin 1) (Fin 16), survey_example (Fin 0) (Fin 12),
      survey_example NaN (Fin 12), survey_example (Fin 50000) (Fin 10),
      survey_example (Fin (- 4)) (Fin 10)]) = 3"
  using wage_filter_and_log
    [of "[survey_example (Fin 1) (Fin 16), survey_example (Fin 0) (Fin 12),
          survey_example NaN (Fin 12), survey_example (Fin 50000) (Fin 10),
          survey_example (Fin (- 4)) (Fin 10)]"]
  by (simp add: wage_frame_def survey_example_def)

subsection \<open>Wage prediction\<close>





text \<open>Once the frame is built, the routine returns: no exception leaves the \<^verbatim>\<open>try\<close>.\<close>

lemma predict_wage_returns:
  assumes "loc_setitem lib (new_test_data model) (known_features prof) = Inr populated"
  shows "\<exists>r. snd (predict_wage lib age model df prof) = Inr r"
  using assms by (simp add: predict_wage_def split: prod.splits sum.splits)



text \<open>
  C9. The result of \<^verbatim>\<open>predict_wage\<close> (what it prints, and what it returns or
  raises) does not depend on its \<open>df\<close> argument: any two values, of any two types, give
  the same result.
\<close>

theorem predict_wage_ignores_df:
  "predict_wage lib age model (d1 :: 'a) prof = predict_wage lib age model (d2 :: 'b) prof"
  by (simp add: predict_wage_def)

end
